theory Spec2Isabelle
  imports Complex_Main "HOL-Library.Word"
begin

unbundle bit_operations_syntax

section \<open>Bias evaluation notebook: data preparer and perplexity evaluator\<close>

text \<open>
  A shallow embedding of \<^verbatim>\<open>code/bias_evaluation/calculate_language_model_bias.ipynb\<close>:
  the functions \<^verbatim>\<open>prepare_df\<close> and \<^verbatim>\<open>calculatePerplexity\<close>, the two globals
  \<^verbatim>\<open>all_adapters_dir\<close> and \<^verbatim>\<open>all_results\<close>, and what the notebook prints.

  Python exceptions are values of the type \<open>error\<close>; a function that may raise returns
  \<open>error + 'a\<close>. Strings are \<open>char list\<close>, one \<open>char\<close> per code point, so the model
  covers text whose code points are below 256. Losses and perplexities are 32-bit floats:
  a finite value, an infinity or not-a-number, with the range and the rounding of the
  format; the sign of zero is not kept.
\<close>

subsection \<open>Exceptions and Python values\<close>

datatype error =
    NameError string
  | UnboundLocalError string
  | TypeError string
  | ZeroDivisionError
  | InputError string
  | ValueError string
  | LibraryError string

definition and_then :: "error + 'a \<Rightarrow> ('a \<Rightarrow> error + 'b) \<Rightarrow> error + 'b" where
  "and_then r f = (case r of Inl e \<Rightarrow> Inl e | Inr x \<Rightarrow> f x)"

text \<open>
  The adapter directories are documented as \<^verbatim>\<open>str\<close> with default \<^verbatim>\<open>None\<close>; Python does
  not check this, so the model also admits booleans and integers, on which \<^verbatim>\<open>&\<close> is
  defined.
\<close>

datatype pyval = PNone | PStr string | PBool bool | PInt int

fun truthy :: "pyval \<Rightarrow> bool" where
  "truthy PNone = False"
| "truthy (PStr s) = (s \<noteq> [])"
| "truthy (PBool b) = b"
| "truthy (PInt i) = (i \<noteq> 0)"

text \<open>\<^verbatim>\<open>a & b\<close>: defined between booleans and integers, a \<^verbatim>\<open>TypeError\<close> otherwise.\<close>

fun py_and :: "pyval \<Rightarrow> pyval \<Rightarrow> error + pyval" where
  "py_and (PBool a) (PBool b) = Inr (PBool (a \<and> b))"
| "py_and (PBool a) (PInt j) = Inr (PInt ((if a then 1 else 0) AND j))"
| "py_and (PInt i) (PBool b) = Inr (PInt (i AND (if b then 1 else 0)))"
| "py_and (PInt i) (PInt j) = Inr (PInt (i AND j))"
| "py_and a b = Inl (TypeError ''unsupported operand type(s) for &'')"

fun starts_with :: "string \<Rightarrow> string \<Rightarrow> bool" where
  "starts_with [] s = True"
| "starts_with (p # ps) [] = False"
| "starts_with (p # ps) (c # cs) = (p = c \<and> starts_with ps cs)"

text \<open>\<^verbatim>\<open>sub in s\<close> on two strings: \<open>sub\<close> occurs in \<open>s\<close> as a contiguous substring.\<close>

fun str_in :: "string \<Rightarrow> string \<Rightarrow> bool" where
  "str_in sub [] = (sub = [])"
| "str_in sub (c # cs) = (starts_with sub (c # cs) \<or> str_in sub cs)"

text \<open>\<^verbatim>\<open>sub in v\<close> where \<open>v\<close> may be any value: only a string can be searched.\<close>

fun py_in :: "string \<Rightarrow> pyval \<Rightarrow> error + bool" where
  "py_in sub (PStr s) = Inr (str_in sub s)"
| "py_in sub v = Inl (TypeError ''argument is not iterable'')"

text \<open>\<^verbatim>\<open>s + v\<close> with a string on the left.\<close>

fun py_concat :: "string \<Rightarrow> pyval \<Rightarrow> error + string" where
  "py_concat s (PStr t) = Inr (s @ t)"
| "py_concat s v = Inl (TypeError ''can only concatenate str to str'')"

subsection \<open>32-bit floats\<close>

text \<open>
  The loss of the model is a \<^verbatim>\<open>float32\<close> tensor, and \<^verbatim>\<open>np.exp\<close>, \<^verbatim>\<open>sum\<close> and the division by
  \<^verbatim>\<open>len\<close> compute in \<^verbatim>\<open>float32\<close>. A value is a finite real, an infinity or not-a-number.
\<close>

datatype npfloat = Fin real | PosInf | NegInf | NaN

text \<open>
  The largest finite float is \<open>float32_max\<close>. The reals from \<open>float32_overflow\<close> on,
  halfway between it and the next power of two, round to infinity.
\<close>

definition float32_overflow :: real where
  "float32_overflow = (2 - 1 / 2 ^ 24) * 2 ^ 127"

definition float32_max :: real where
  "float32_max = (2 - 1 / 2 ^ 23) * 2 ^ 127"

text \<open>Rounding to the nearest integer, a tie to the even one.\<close>

definition round_half_even :: "real \<Rightarrow> int" where
  "round_half_even y =
     (let f = \<lfloor>y\<rfloor>; d = y - of_int f
      in if d < 1 / 2 then f else if 1 / 2 < d then f + 1 else if even f then f else f + 1)"

text \<open>
  The distance between neighbouring floats around \<open>x\<close>: 24 significant bits, and the
  exponent not below -126, so that the subnormal numbers are the multiples of the least
  positive float, \<^verbatim>\<open>2 ** -149\<close>.
\<close>

definition ulp32 :: "real \<Rightarrow> real" where
  "ulp32 x = 2 powr (of_int (max \<lfloor>log 2 \<bar>x\<bar>\<rfloor> (- 126)) - 23)"

definition round32 :: "real \<Rightarrow> real" where
  "round32 x = (if x = 0 then 0 else of_int (round_half_even (x / ulp32 x)) * ulp32 x)"

text \<open>The float that an exact result is stored as.\<close>

definition to_f32 :: "real \<Rightarrow> npfloat" where
  "to_f32 x =
     (if float32_overflow \<le> x then PosInf
      else if x \<le> - float32_overflow then NegInf
      else Fin (round32 x))"

text \<open>\<^verbatim>\<open>np.exp\<close> on a \<^verbatim>\<open>float32\<close>, taken as correctly rounded.\<close>

fun np_exp :: "npfloat \<Rightarrow> npfloat" where
  "np_exp (Fin l) = to_f32 (exp l)"
| "np_exp PosInf = PosInf"
| "np_exp NegInf = Fin 0"
| "np_exp NaN = NaN"

text \<open>Addition of two floats.\<close>

fun fl_add :: "npfloat \<Rightarrow> npfloat \<Rightarrow> npfloat" where
  "fl_add NaN b = NaN"
| "fl_add a NaN = NaN"
| "fl_add PosInf NegInf = NaN"
| "fl_add NegInf PosInf = NaN"
| "fl_add PosInf b = PosInf"
| "fl_add a PosInf = PosInf"
| "fl_add NegInf b = NegInf"
| "fl_add a NegInf = NegInf"
| "fl_add (Fin a) (Fin b) = to_f32 (a + b)"

text \<open>Division of a float by a positive length, which is converted to a float first.\<close>

fun fl_div_len :: "npfloat \<Rightarrow> nat \<Rightarrow> npfloat" where
  "fl_div_len (Fin a) n = to_f32 (a / round32 (real n))"
| "fl_div_len PosInf n = PosInf"
| "fl_div_len NegInf n = NegInf"
| "fl_div_len NaN n = NaN"

subsection \<open>The loaded model, the results and the notebook state\<close>

datatype active_setup = NoActive | SetActive string | Stack string string

text \<open>
  What has been loaded: the checkpoint name, the head class
  (\<^verbatim>\<open>AutoModelForMaskedLM\<close> or \<^verbatim>\<open>AutoModelForCausalLM\<close>), each \<^verbatim>\<open>load_adapter\<close> call in
  order as (path, \<^verbatim>\<open>load_as\<close>, \<^verbatim>\<open>with_head\<close>), and the active adapter setup.
\<close>

record lm =
  checkpoint :: string
  head_class :: string
  adapters :: "(string \<times> string \<times> bool) list"
  active :: active_setup

record result =
  Model :: string
  Bias_Type :: string
  Strategy :: string
  Mean_PPL_BS :: real
  Mean_PPL_OS :: real
  t_value :: real
  p_value :: real

datatype printed = Text string | Table "(string \<times> real) list"

text \<open>
  The shared state of the notebook: its two globals, the text printed so far, and the
  paths of the files written so far.
\<close>

record state =
  all_adapters_dir :: string
  all_results :: "result list"
  stdout :: "printed list"
  files_written :: "string list"

definition print :: "state \<Rightarrow> string \<Rightarrow> state" where
  "print st s = st\<lparr>stdout := stdout st @ [Text s]\<rparr>"

definition print_table :: "state \<Rightarrow> (string \<times> real) list \<Rightarrow> state" where
  "print_table st t = st\<lparr>stdout := stdout st @ [Table t]\<rparr>"

text \<open>The rows of a spreadsheet of annotations, and of a prepared frame.\<close>

record annotation_row =
  ann_Column1 :: string
  ann_ID :: string
  ann_newSent :: string
  ann_Biased_Sentence :: int

record core_row =
  Column1 :: string
  ID :: string
  Biased_Sentence :: string

record sample = core_row +
  tt_list :: "string list"
  tt_opp_list :: "string list list"
  Target_Term_Combination :: "(string \<times> string) list list"
  Opposing_Sentence :: "string list"

text \<open>
  What the notebook takes from outside: the names that only \<^verbatim>\<open>%run\<close> of the helper files
  could define (\<^verbatim>\<open>InputError\<close>, \<^verbatim>\<open>ac\<close>, \<^verbatim>\<open>t_test\<close>), the model hub and the adapter
  directories, the tokenizer and the forward pass of a loaded model, and the two readers
  of input files.
\<close>

record extern =
  InputError_defined :: bool
  ac_defined :: bool
  pretrained_available :: "string \<Rightarrow> bool"
  adapter_available :: "string \<Rightarrow> bool"
  tokenize :: "string \<Rightarrow> string \<Rightarrow> string list"
  convert_tokens_to_ids :: "string \<Rightarrow> string list \<Rightarrow> int list"
  loss :: "lm \<Rightarrow> int list \<Rightarrow> error + npfloat"
  t_test :: "npfloat list \<Rightarrow> npfloat list \<Rightarrow> error + (real \<times> real \<times> nat \<times> real \<times> real)"
  read_excel :: "string \<Rightarrow> error + annotation_row list"
  read_csv :: "string \<Rightarrow> error + (string \<times> string) list"

subsection \<open>calculatePerplexity: model family and adaptation strategy\<close>

text \<open>
  \<^verbatim>\<open>raise InputError(msg)\<close>: the notebook never defines \<^verbatim>\<open>InputError\<close>, so unless a helper
  file does, evaluating the name raises \<^verbatim>\<open>NameError\<close>.
\<close>

definition raise_InputError :: "extern \<Rightarrow> string \<Rightarrow> error" where
  "raise_InputError ex msg =
     (if InputError_defined ex then InputError msg else NameError ''InputError'')"

text \<open>The first \<^verbatim>\<open>if\<close> chain: (\<^verbatim>\<open>language_model\<close>, \<^verbatim>\<open>model_type\<close>).\<close>

definition model_family :: "extern \<Rightarrow> string \<Rightarrow> error + (string \<times> string)" where
  "model_family ex model_name =
     (if str_in ''bert'' model_name then Inr (''BERT'', ''mlm'')
      else if str_in ''gpt2'' model_name then Inr (''GPT-2'', ''clm'')
      else Inl (raise_InputError ex ''Model type is not recognized.''))"

text \<open>
  The second \<^verbatim>\<open>if\<close> chain. The result is the local variable \<^verbatim>\<open>strategy\<close> afterwards:
  \<open>None\<close> when no branch assigned it.
\<close>

definition select_strategy :: "pyval \<Rightarrow> pyval \<Rightarrow> error + string option" where
  "select_strategy adapter_dir1 adapter_dir2 =
     (if truthy adapter_dir1 then
        and_then (py_in ''argsme'' adapter_dir1) (\<lambda>a.
          if a then Inr (Some ''Args.me'')
          else and_then (py_in ''wiki'' adapter_dir1) (\<lambda>w.
            if w then Inr (Some ''Wikipedia'') else Inr None))
      else
        and_then (py_and adapter_dir1 adapter_dir2) (\<lambda>both.
          if truthy both then Inr (Some ''stacking'') else Inr (Some ''original'')))"

text \<open>Reading a local variable that was never assigned.\<close>

definition read_local :: "string \<Rightarrow> 'a option \<Rightarrow> error + 'a" where
  "read_local name v = (case v of None \<Rightarrow> Inl (UnboundLocalError name) | Some x \<Rightarrow> Inr x)"

subsection \<open>calculatePerplexity: loading the model\<close>

definition from_pretrained :: "extern \<Rightarrow> string \<Rightarrow> string \<Rightarrow> error + lm" where
  "from_pretrained ex cls model_name =
     (if pretrained_available ex model_name
      then Inr \<lparr>checkpoint = model_name, head_class = cls, adapters = [], active = NoActive\<rparr>
      else Inl (LibraryError model_name))"

definition load_adapter :: "extern \<Rightarrow> lm \<Rightarrow> string \<Rightarrow> string \<Rightarrow> bool \<Rightarrow> error + lm" where
  "load_adapter ex model path load_as with_head =
     (if adapter_available ex path
      then Inr (model\<lparr>adapters := adapters model @ [(path, load_as, with_head)]\<rparr>)
      else Inl (LibraryError path))"

text \<open>\<^verbatim>\<open>model.active_adapters = ac.Stack(a, b)\<close>: the name \<^verbatim>\<open>ac\<close> is looked up first.\<close>

definition set_stack :: "extern \<Rightarrow> lm \<Rightarrow> string \<Rightarrow> string \<Rightarrow> error + lm" where
  "set_stack ex model a b =
     (if ac_defined ex then Inr (model\<lparr>active := Stack a b\<rparr>) else Inl (NameError ''ac''))"

definition set_active_adapters :: "lm \<Rightarrow> string \<Rightarrow> lm" where
  "set_active_adapters model a = model\<lparr>active := SetActive a\<rparr>"

text \<open>
  The block between the two prints \<^verbatim>\<open>Load trained model.....\<close> and
  \<^verbatim>\<open>Model loaded successfully!\<close>, branch by branch as the source has it.
\<close>

definition load_model ::
  "extern \<Rightarrow> string \<Rightarrow> string \<Rightarrow> string \<Rightarrow> string \<Rightarrow> pyval \<Rightarrow> pyval \<Rightarrow> error + lm" where
  "load_model ex dir model_type strategy model_name adapter_dir1 adapter_dir2 =
     (if model_type = ''mlm'' then
        and_then (from_pretrained ex ''AutoModelForMaskedLM'' model_name) (\<lambda>model.
          if strategy = ''stacking'' then
            and_then (py_concat dir adapter_dir1) (\<lambda>p1.
            and_then (load_adapter ex model (p1 @ ''/mlm'') ''model_adapter1'' False) (\<lambda>model1.
            and_then (py_concat dir adapter_dir2) (\<lambda>p2.
            and_then (load_adapter ex model1 (p2 @ ''/mlm'') ''model_adapter2'' False) (\<lambda>model2.
            set_stack ex model2 ''model_adapter1'' ''model_adapter2''))))
          else if strategy = ''Args.me'' \<or> strategy = ''Wikipedia'' then
            and_then (py_concat dir adapter_dir1) (\<lambda>p1.
            and_then (load_adapter ex model (p1 @ ''/mlm'') ''model_adapter'' True) (\<lambda>model1.
            Inr (set_active_adapters model1 ''model_adapter'')))
          else Inr model)
      else if model_type = ''clm'' then
        and_then (from_pretrained ex ''AutoModelForCausalLM'' model_name) (\<lambda>model.
          if strategy = ''stacking'' then
            and_then (py_concat dir adapter_dir1) (\<lambda>p1.
            and_then (load_adapter ex model (p1 @ ''/clm'') ''model_adapter1'' False) (\<lambda>model1.
            and_then (py_concat dir adapter_dir2) (\<lambda>p2.
            and_then (load_adapter ex model1 (p2 @ ''/clm'') ''model_adapter2'' False) (\<lambda>model2.
            set_stack ex model2 ''model_adapter1'' ''model_adapter2''))))
          else if strategy = ''Args.me'' \<or> strategy = ''Wikipedia'' then
            and_then (py_concat dir adapter_dir1) (\<lambda>p1.
            and_then (load_adapter ex model (p1 @ ''/mlm'') ''model_adapter'' True) (\<lambda>model1.
            Inr (set_active_adapters model1 ''model_adapter'')))
          else Inr model)
      else Inl (raise_InputError ex ''Model type is not recognized.''))"

text \<open>\<^verbatim>\<open>AutoTokenizer.from_pretrained(model_name)\<close>; the tokenizer is named by its checkpoint.\<close>

definition tokenizer_from_pretrained :: "extern \<Rightarrow> string \<Rightarrow> error + string" where
  "tokenizer_from_pretrained ex model_name =
     (if pretrained_available ex model_name then Inr model_name else Inl (LibraryError model_name))"

subsection \<open>calculatePerplexity: scoring\<close>

text \<open>
  The body shared by both loops: the token ids with the markers of the model family, the
  loss of the model on them with the input as its own label, and its exponential. With a
  \<^verbatim>\<open>model_type\<close> that is neither \<^verbatim>\<open>mlm\<close> nor \<^verbatim>\<open>clm\<close> no branch assigns \<^verbatim>\<open>tensor_input\<close>.
\<close>

definition tensor_input :: "extern \<Rightarrow> string \<Rightarrow> string \<Rightarrow> string \<Rightarrow> error + int list" where
  "tensor_input ex model_type tokenizer sent =
     (if model_type = ''mlm'' then
        Inr (convert_tokens_to_ids ex tokenizer
               ([''[CLS]''] @ tokenize ex tokenizer sent @ [''[SEP]'']))
      else if model_type = ''clm'' then
        Inr ([50256] @ convert_tokens_to_ids ex tokenizer (tokenize ex tokenizer sent) @ [50256])
      else Inl (UnboundLocalError ''tensor_input''))"

definition perplexity ::
  "extern \<Rightarrow> string \<Rightarrow> string \<Rightarrow> lm \<Rightarrow> string \<Rightarrow> error + npfloat" where
  "perplexity ex model_type tokenizer model sent =
     and_then (tensor_input ex model_type tokenizer sent) (\<lambda>ids.
     and_then (loss ex model ids) (\<lambda>l. Inr (np_exp l)))"

text \<open>A \<^verbatim>\<open>for\<close> loop that appends one score per sentence and stops at the first exception.\<close>

fun score_each ::
  "(string \<Rightarrow> error + npfloat) \<Rightarrow> string list \<Rightarrow> error + npfloat list" where
  "score_each f [] = Inr []"
| "score_each f (s # ss) =
     and_then (f s) (\<lambda>p. and_then (score_each f ss) (\<lambda>ps. Inr (p # ps)))"

text \<open>
  \<^verbatim>\<open>sum(tmp) / len(tmp)\<close>: on the empty list this is \<^verbatim>\<open>0 / 0\<close> on integers; otherwise the
  scores are added from the left, starting from 0, and the sum is divided by the length.
\<close>

definition tmp_mean :: "npfloat list \<Rightarrow> error + npfloat" where
  "tmp_mean tmp =
     (if length tmp = 0 then Inl ZeroDivisionError
      else Inr (fl_div_len (foldl fl_add (Fin 0) tmp) (length tmp)))"

fun score_opposing ::
  "(string \<Rightarrow> error + npfloat) \<Rightarrow> string list list \<Rightarrow> error + npfloat list" where
  "score_opposing f [] = Inr []"
| "score_opposing f (opp_biased_sents # rest) =
     and_then (score_each f opp_biased_sents) (\<lambda>tmp.
     and_then (tmp_mean tmp) (\<lambda>m.
     and_then (score_opposing f rest) (\<lambda>ms. Inr (m # ms))))"

subsection \<open>calculatePerplexity\<close>

definition make_result ::
  "string \<Rightarrow> string \<Rightarrow> string \<Rightarrow> real \<times> real \<times> nat \<times> real \<times> real \<Rightarrow> result" where
  "make_result language_model bias_type strategy t =
     (case t of (ttest, pval, num_samples, mean_bs, mean_os) \<Rightarrow>
        \<lparr>Model = language_model, Bias_Type = bias_type, Strategy = strategy,
         Mean_PPL_BS = mean_bs, Mean_PPL_OS = mean_os, t_value = ttest, p_value = pval\<rparr>)"

definition report_table :: "real \<times> real \<times> nat \<times> real \<times> real \<Rightarrow> (string \<times> real) list" where
  "report_table t =
     (case t of (ttest, pval, num_samples, mean_bs, mean_os) \<Rightarrow>
        [(''Sample size'', real num_samples),
         (''Mean PPL BS'', mean_bs),
         (''Mean PPL OS'', mean_os),
         (''Difference Mean'', mean_bs - mean_os),
         (''t-value'', ttest),
         (''P-value (two-tail)'', pval)])"

text \<open>The two scoring loops: the perplexity lists handed to \<^verbatim>\<open>t_test\<close>.\<close>

definition score_frame ::
  "extern \<Rightarrow> string \<Rightarrow> string \<Rightarrow> lm \<Rightarrow> sample list
     \<Rightarrow> error + (npfloat list \<times> npfloat list)" where
  "score_frame ex model_type tokenizer model test_df =
     (let biased_sentences = map Biased_Sentence test_df;
          inversely_biased_sentences = map Opposing_Sentence test_df
      in and_then (score_each (perplexity ex model_type tokenizer model) biased_sentences)
           (\<lambda>pps_biased_sents.
         and_then (score_opposing (perplexity ex model_type tokenizer model)
                     inversely_biased_sentences)
           (\<lambda>pps_opp_biased_sents. Inr (pps_biased_sents, pps_opp_biased_sents))))"

text \<open>
  The function returns the one-row frame \<^verbatim>\<open>pd.DataFrame([result])\<close>, or the exception that
  ended it, together with the state it leaves behind. The progress bars of \<^verbatim>\<open>tqdm\<close> go to
  the error stream and are not recorded.
\<close>

definition calculatePerplexity ::
  "extern \<Rightarrow> string \<Rightarrow> sample list \<Rightarrow> string \<Rightarrow> pyval \<Rightarrow> pyval \<Rightarrow> state
     \<Rightarrow> (error + result list) \<times> state" where
  "calculatePerplexity ex model_name test_df bias_type adapter_dir1 adapter_dir2 st =
     (case model_family ex model_name of
        Inl e \<Rightarrow> (Inl e, st)
      | Inr (language_model, model_type) \<Rightarrow>
     (case select_strategy adapter_dir1 adapter_dir2 of
        Inl e \<Rightarrow> (Inl e, st)
      | Inr strategy_var \<Rightarrow>
     (case read_local ''strategy'' strategy_var of
        Inl e \<Rightarrow> (Inl e, st)
      | Inr strategy \<Rightarrow>
     (let st1 = print st (''Evaluate Results for '' @ language_model @ '' on '' @ strategy
                            @ '' Corpora concerning '' @ bias_type);
          st2 = print st1 ''Load trained model.....''
      in case load_model ex (all_adapters_dir st2) model_type strategy model_name
                adapter_dir1 adapter_dir2 of
        Inl e \<Rightarrow> (Inl e, st2)
      | Inr model \<Rightarrow>
     (let st3 = print st2 ''Model loaded successfully!''
      in case tokenizer_from_pretrained ex model_name of
        Inl e \<Rightarrow> (Inl e, st3)
      | Inr tokenizer \<Rightarrow>
     (let st4 = print st3 ''Calculate Perplexity Scores.....''
      in case score_frame ex model_type tokenizer model test_df of
        Inl e \<Rightarrow> (Inl e, st4)
      | Inr (pps_biased_sents, pps_opp_biased_sents) \<Rightarrow>
     (let st5 = print st4 ''Perplexity Scores calculated successfully!''
      in case t_test ex pps_biased_sents pps_opp_biased_sents of
        Inl e \<Rightarrow> (Inl e, st5)
      | Inr t \<Rightarrow>
     (let result = make_result language_model bias_type strategy t;
          st6 = st5\<lparr>all_results := all_results st5 @ [result]\<rparr>;
          st7 = print st6 (''Paired t-test of '' @ language_model);
          st8 = print_table st7 (report_table t)
      in (Inr [result], st8)))))))))"

subsection \<open>prepare_df: filtering, lowercasing and deduplication\<close>

text \<open>\<^verbatim>\<open>str.lower()\<close> on code points below 256: the letters A to Z and the capital letters
  of the Latin-1 block (all of 192 to 222 but the multiplication sign 215) move up by 32.\<close>

definition lower_char :: "char \<Rightarrow> char" where
  "lower_char c =
     (let n = (of_char c :: nat)
      in if (65 \<le> n \<and> n \<le> 90) \<or> (192 \<le> n \<and> n \<le> 222 \<and> n \<noteq> 215)
         then char_of (n + 32) else c)"

definition lower :: "string \<Rightarrow> string" where
  "lower s = map lower_char s"

text \<open>\<^verbatim>\<open>str(n)\<close> for the row counts that are printed.\<close>

fun str_nat :: "nat \<Rightarrow> string" where
  "str_nat n =
     (if n < 10 then [char_of (48 + n)]
      else str_nat (n div 10) @ [char_of (48 + n mod 10)])"

text \<open>The selection of the columns \<^verbatim>\<open>Column1\<close>, \<^verbatim>\<open>ID\<close> and \<^verbatim>\<open>newSent\<close>, followed by
  the renaming of \<^verbatim>\<open>newSent\<close> to \<^verbatim>\<open>Biased Sentence\<close>.\<close>

definition keep_columns :: "annotation_row \<Rightarrow> core_row" where
  "keep_columns r =
     \<lparr>Column1 = ann_Column1 r, ID = ann_ID r, Biased_Sentence = ann_newSent r\<rparr>"

definition lowercase :: "core_row \<Rightarrow> core_row" where
  "lowercase row = row\<lparr>Biased_Sentence := lower (Biased_Sentence row)\<rparr>"

text \<open>
  \<^verbatim>\<open>df.drop_duplicates(subset=['Biased Sentence'])\<close> with the default \<^verbatim>\<open>keep='first'\<close>: a
  row stays when no earlier row has its sentence, and the rows that stay keep their order.
\<close>

fun drop_seen :: "string list \<Rightarrow> core_row list \<Rightarrow> core_row list" where
  "drop_seen seen [] = []"
| "drop_seen seen (r # rs) =
     (if Biased_Sentence r \<in> set seen then drop_seen seen rs
      else r # drop_seen (Biased_Sentence r # seen) rs)"

definition drop_duplicates :: "core_row list \<Rightarrow> core_row list" where
  "drop_duplicates df = drop_seen [] df"

subsection \<open>prepare_df: the helpers of the counterfactual augmentation\<close>

text \<open>\<^verbatim>\<open>s.split(' ')\<close> and \<^verbatim>\<open>' '.join(ws)\<close>: the words of a sentence.\<close>

fun split_words :: "string \<Rightarrow> string list" where
  "split_words [] = [[]]"
| "split_words (c # cs) =
     (if c = CHR '' '' then [] # split_words cs
      else (case split_words cs of [] \<Rightarrow> [[c]] | w # ws \<Rightarrow> (c # w) # ws))"

fun join_words :: "string list \<Rightarrow> string" where
  "join_words [] = []"
| "join_words [w] = w"
| "join_words (w # v # ws) = w @ '' '' @ join_words (v # ws)"

text \<open>
  Modelled from the spec: \<^verbatim>\<open>findTargetTerms\<close> of \<^verbatim>\<open>utils/helper_functions.py\<close>, which is
  not among the sources. It "finds contained target terms": the target terms that are
  words of the sentence, in the order of the term list.
\<close>

definition findTargetTerms :: "string \<Rightarrow> string list \<Rightarrow> string list" where
  "findTargetTerms sentence target_terms =
     filter (\<lambda>t. t \<in> set (split_words sentence)) target_terms"

text \<open>
  Modelled from the spec: the "paired opposite" terms of one target term in the table of
  pairs (columns \<^verbatim>\<open>T1\<close> and \<^verbatim>\<open>T2\<close>), read in both directions.
\<close>

definition opposites :: "(string \<times> string) list \<Rightarrow> string \<Rightarrow> string list" where
  "opposites target_term_pairs t =
     map snd (filter (\<lambda>p. fst p = t) target_term_pairs)
     @ map fst (filter (\<lambda>p. snd p = t) target_term_pairs)"

text \<open>
  Modelled from the spec: \<^verbatim>\<open>findOppositeTargetTerm\<close> of \<^verbatim>\<open>utils/helper_functions.py\<close>, which
  is not among the sources: for each term found, its opposites.
\<close>

definition findOppositeTargetTerm ::
  "string list \<Rightarrow> (string \<times> string) list \<Rightarrow> string list list" where
  "findOppositeTargetTerm tts target_term_pairs = map (opposites target_term_pairs) tts"

text \<open>
  Modelled from the spec: \<^verbatim>\<open>createCombination\<close> of \<^verbatim>\<open>utils/helper_functions.py\<close>, which is not
  among the sources. It "builds all term-substitution combinations": every way of giving
  each term found one of its opposites.
\<close>

definition createCombination ::
  "string list \<Rightarrow> string list list \<Rightarrow> (string \<times> string) list list" where
  "createCombination tts opps =
     product_lists (map (\<lambda>(t, os). map (Pair t) os) (zip tts opps))"

text \<open>
  Modelled from the spec: \<^verbatim>\<open>replaceTermsInSentence\<close> of \<^verbatim>\<open>utils/helper_functions.py\<close>, which
  is not among the sources. It "generates opposing sentences by substitution": one
  sentence per combination, in which each word that the combination maps is replaced and
  every other word is kept.
\<close>

definition substitute :: "(string \<times> string) list \<Rightarrow> string \<Rightarrow> string" where
  "substitute combination w = (case map_of combination w of None \<Rightarrow> w | Some opp \<Rightarrow> opp)"

definition replaceTermsInSentence ::
  "string \<Rightarrow> (string \<times> string) list list \<Rightarrow> string list" where
  "replaceTermsInSentence sentence combinations =
     map (\<lambda>combination. join_words (map (substitute combination) (split_words sentence)))
       combinations"

subsection \<open>prepare_df\<close>

text \<open>
  \<^verbatim>\<open>list(set(T1)) + list(set(T2))\<close>: each column without repetitions. Python leaves the
  order inside each half open; the model takes the order of \<open>remdups\<close>.
\<close>

definition all_target_terms :: "(string \<times> string) list \<Rightarrow> string list" where
  "all_target_terms target_term_pairs =
     remdups (map fst target_term_pairs) @ remdups (map snd target_term_pairs)"

text \<open>The four columns that are added to a row, each computed from the ones before it.\<close>

definition add_columns :: "string list \<Rightarrow> (string \<times> string) list \<Rightarrow> core_row \<Rightarrow> sample" where
  "add_columns target_terms target_term_pairs row =
     (let tts = findTargetTerms (Biased_Sentence row) target_terms;
          opps = findOppositeTargetTerm tts target_term_pairs;
          combinations = createCombination tts opps;
          opposing = replaceTermsInSentence (Biased_Sentence row) combinations
      in \<lparr>Column1 = Column1 row, ID = ID row, Biased_Sentence = Biased_Sentence row,
          tt_list = tts, tt_opp_list = opps, Target_Term_Combination = combinations,
          Opposing_Sentence = opposing\<rparr>)"

text \<open>
  On a frame without rows the row-wise \<^verbatim>\<open>apply\<close> of the lowercasing step returns a frame
  instead of a column, and assigning it to the column \<^verbatim>\<open>Biased Sentence\<close> raises
  \<^verbatim>\<open>ValueError\<close>.
\<close>

definition prepare_df ::
  "extern \<Rightarrow> string \<Rightarrow> string \<Rightarrow> state \<Rightarrow> (error + sample list) \<times> state" where
  "prepare_df ex annotation_frame_dir target_term_dir st =
     (case read_excel ex annotation_frame_dir of
        Inl e \<Rightarrow> (Inl e, st)
      | Inr sheet \<Rightarrow>
     (let df1 = filter (\<lambda>r. ann_Biased_Sentence r = 1) sheet;
          df2 = map keep_columns df1;
          st1 = print st (''Number of biased sentences per Attribute: ''
                            @ str_nat (length df2))
      in if df2 = [] then (Inl (ValueError ''Biased Sentence''), st1)
         else
     (let df3 = map lowercase df2;
          df4 = drop_duplicates df3;
          st2 = print st1 (''Number of biased sentences without duplicates: ''
                             @ str_nat (length df4))
      in case read_csv ex target_term_dir of
        Inl e \<Rightarrow> (Inl e, st2)
      | Inr target_term_pairs \<Rightarrow>
     (let target_terms = all_target_terms target_term_pairs;
          df5 = map (add_columns target_terms target_term_pairs) df4;
          st3 = print st2 ''Dataframe prepared!''
      in (Inr df5, st3)))))"

declare str_nat.simps [simp del]

text \<open>
  A prepared frame written back as a sheet of annotations: the three columns that
  \<^verbatim>\<open>prepare_df\<close> reads, every row labelled as biased.
\<close>

definition as_annotation :: "sample \<Rightarrow> annotation_row" where
  "as_annotation row =
     \<lparr>ann_Column1 = Column1 row, ann_ID = ID row, ann_newSent = Biased_Sentence row,
      ann_Biased_Sentence = 1\<rparr>"

subsection \<open>A concrete environment\<close>

text \<open>
  An environment in which every checkpoint and adapter directory exists, the tokenizer
  splits at spaces and numbers each token by its length, the loss of an input is the
  logarithm of the sum of its token ids, and \<^verbatim>\<open>t_test\<close> reports the two means. The helper names \<^verbatim>\<open>InputError\<close> and \<^verbatim>\<open>ac\<close> are
  undefined, as in the notebook taken alone. The spreadsheet has four rows, three of them
  labelled biased and two of these equal up to case.
\<close>

definition example_sheet :: "annotation_row list" where
  "example_sheet =
     [\<lparr>ann_Column1 = ''0'', ann_ID = ''a'', ann_newSent = ''He is GAY'', ann_Biased_Sentence = 1\<rparr>,
      \<lparr>ann_Column1 = ''1'', ann_ID = ''b'', ann_newSent = ''nice day'', ann_Biased_Sentence = 0\<rparr>,
      \<lparr>ann_Column1 = ''2'', ann_ID = ''c'', ann_newSent = ''he is gay'', ann_Biased_Sentence = 1\<rparr>,
      \<lparr>ann_Column1 = ''3'', ann_ID = ''d'', ann_newSent = ''a queer man'', ann_Biased_Sentence = 1\<rparr>]"

definition example_pairs :: "(string \<times> string) list" where
  "example_pairs = [(''gay'', ''straight''), (''queer'', ''straight''), (''queer'', ''cis'')]"

definition finite_part :: "npfloat \<Rightarrow> real" where
  "finite_part v = (case v of Fin x \<Rightarrow> x | PosInf \<Rightarrow> 0 | NegInf \<Rightarrow> 0 | NaN \<Rightarrow> 0)"

definition example_extern :: extern where
  "example_extern =
     \<lparr>InputError_defined = False,
      ac_defined = False,
      pretrained_available = (\<lambda>name. True),
      adapter_available = (\<lambda>path. True),
      tokenize = (\<lambda>tokenizer sent. split_words sent),
      convert_tokens_to_ids = (\<lambda>tokenizer toks. map (\<lambda>t. int (length t)) toks),
      loss = (\<lambda>model ids. Inr (Fin (ln (real_of_int (sum_list ids))))),
      t_test = (\<lambda>bs os. Inr (0, 1, length bs,
                                 sum_list (map finite_part bs) / real (length bs),
                                 sum_list (map finite_part os) / real (length os))),
      read_excel = (\<lambda>path. Inr example_sheet),
      read_csv = (\<lambda>path. Inr example_pairs)\<rparr>"

definition example_state :: state where
  "example_state =
     \<lparr>all_adapters_dir = ''../../results/'', all_results = [], stdout = [], files_written = []\<rparr>"

definition example_frame :: "sample list" where
  "example_frame =
     [\<lparr>Column1 = ''0'', ID = ''a'', Biased_Sentence = ''he is gay'',
       tt_list = [''gay''], tt_opp_list = [[''straight'']],
       Target_Term_Combination = [[(''gay'', ''straight'')]],
       Opposing_Sentence = [''he is straight'']\<rparr>,
      \<lparr>Column1 = ''3'', ID = ''d'', Biased_Sentence = ''a queer man'',
       tt_list = [''queer''], tt_opp_list = [[''straight'', ''cis'']],
       Target_Term_Combination = [[(''queer'', ''straight'')], [(''queer'', ''cis'')]],
       Opposing_Sentence = [''a straight man'', ''a cis man'']\<rparr>]"

text \<open>The same frame with a third row that has no opposing sentence.\<close>

definition gap_frame :: "sample list" where
  "gap_frame =
     example_frame @
     [\<lparr>Column1 = ''4'', ID = ''e'', Biased_Sentence = ''nobody here'',
       tt_list = [], tt_opp_list = [], Target_Term_Combination = [],
       Opposing_Sentence = []\<rparr>]"

text \<open>What a run on \<open>example_frame\<close> with BERT and one Args.me adapter reports and leaves.\<close>

definition example_result :: result where
  "example_result =
     \<lparr>Model = ''BERT'', Bias_Type = ''Queerphobia'', Strategy = ''Args.me'',
      Mean_PPL_BS = 18, Mean_PPL_OS = 83 / 4, t_value = 0, p_value = 1\<rparr>"

definition example_final_state :: state where
  "example_final_state =
     \<lparr>all_adapters_dir = ''../../results/'',
      all_results = [example_result],
      stdout =
        [Text ''Evaluate Results for BERT on Args.me Corpora concerning Queerphobia'',
         Text ''Load trained model.....'',
         Text ''Model loaded successfully!'',
         Text ''Calculate Perplexity Scores.....'',
         Text ''Perplexity Scores calculated successfully!'',
         Text ''Paired t-test of BERT'',
         Table [(''Sample size'', 2), (''Mean PPL BS'', 18), (''Mean PPL OS'', 83 / 4),
                (''Difference Mean'', - (11 / 4)), (''t-value'', 0),
                (''P-value (two-tail)'', 1)]],
      files_written = []\<rparr>"

text \<open>
  The model that this run loads, and two environments in which the loss of every input is
  100 and -200.
\<close>

definition example_model :: lm where
  "example_model =
     \<lparr>checkpoint = ''bert-base-uncased'', head_class = ''AutoModelForMaskedLM'',
      adapters = [(''../../results//bert_argsme_adapter/mlm'', ''model_adapter'', True)],
      active = SetActive ''model_adapter''\<rparr>"

definition overflow_extern :: extern where
  "overflow_extern = example_extern\<lparr>loss := (\<lambda>model ids. Inr (Fin 100))\<rparr>"

definition underflow_extern :: extern where
  "underflow_extern = example_extern\<lparr>loss := (\<lambda>model ids. Inr (Fin (- 200)))\<rparr>"

text \<open>The state after preparing the example sheet.\<close>

definition example_prepared_state :: state where
  "example_prepared_state =
     \<lparr>all_adapters_dir = ''../../results/'',
      all_results = [],
      stdout =
        [Text ''Number of biased sentences per Attribute: 3'',
         Text ''Number of biased sentences without duplicates: 2'',
         Text ''Dataframe prepared!''],
      files_written = []\<rparr>"

section \<open>Properties of the 32-bit floats\<close>

lemma round_half_even_of_int [simp]: "round_half_even (of_int m) = m"
  by (simp add: round_half_even_def)

lemma ulp32_pos: "0 < ulp32 x"
  by (simp add: ulp32_def)

lemma ulp32_eq:
  assumes "0 < x" and "2 ^ k \<le> x" and "x < 2 ^ Suc k"
  shows "ulp32 x = 2 powr (real k - 23)"
proof -
  have "\<lfloor>log 2 x\<rfloor> = int k"
    using assms by (subst floor_log_eq_powr_iff) (auto simp: powr_realpow powr_add)
  with assms(1) show ?thesis by (simp add: ulp32_def max_def)
qed

lemma round32_exact:
  assumes "2 ^ k \<le> x" and "x < 2 ^ Suc k" and "k \<le> 23" and "x * 2 ^ (23 - k) = of_int m"
  shows "round32 x = x"
proof -
  have "(0::real) < 2 ^ k" by simp
  with assms(1) have pos: "0 < x" by linarith
  have u: "ulp32 x = 2 powr (real k - 23)" using ulp32_eq [OF pos assms(1,2)] .
  have "real k - 23 = - real (23 - k)" using assms(3) by simp
  then have u': "ulp32 x = inverse (2 ^ (23 - k))"
    using u by (simp only: powr_minus powr_realpow zero_less_numeral)
  have "x / ulp32 x = x * 2 ^ (23 - k)" by (simp add: u' divide_inverse)
  with assms(4) have "x / ulp32 x = of_int m" by simp
  then have "round32 x = of_int m * ulp32 x" using pos by (simp add: round32_def)
  also have "\<dots> = x * 2 ^ (23 - k) * inverse (2 ^ (23 - k))"
    by (simp only: assms(4) u')
  also have "\<dots> = x" by simp
  finally show ?thesis .
qed

lemma to_f32_exact:
  assumes "2 ^ k \<le> x" and "x < 2 ^ Suc k" and "k \<le> 23" and "x * 2 ^ (23 - k) = of_int m"
  shows "to_f32 x = Fin x"
proof -
  have "x < 2 ^ 24"
    using assms(2,3) power_increasing [of "Suc k" 24 "2::real"] by simp
  then have "x < float32_overflow" by (simp add: float32_overflow_def)
  moreover have "(0::real) < 2 ^ k" by simp
  with assms(1) have "0 < x" by linarith
  ultimately show ?thesis
    using round32_exact [OF assms] by (simp add: to_f32_def float32_overflow_def)
qed

lemma round_half_even_ge_floor: "\<lfloor>y\<rfloor> \<le> round_half_even y"
  by (simp add: round_half_even_def Let_def)

lemma round_half_even_ge_1:
  assumes "1 / 2 < y"
  shows "1 \<le> round_half_even y"
proof (cases "\<lfloor>y\<rfloor> = 0")
  case True
  with assms show ?thesis by (simp add: round_half_even_def Let_def)
next
  case False
  from assms have "0 \<le> \<lfloor>y\<rfloor>" by simp
  with False have "1 \<le> \<lfloor>y\<rfloor>" by linarith
  with round_half_even_ge_floor [of y] show ?thesis by linarith
qed

lemma round32_pos:
  assumes "1 / 2 ^ 150 < x"
  shows "0 < round32 x"
proof -
  have "(0::real) < 1 / 2 ^ 150" by simp
  with assms have pos: "0 < x" by linarith
  let ?e = "max \<lfloor>log 2 \<bar>x\<bar>\<rfloor> (- 126)"
  have half: "1 / 2 < x / ulp32 x"
  proof (cases "\<lfloor>log 2 \<bar>x\<bar>\<rfloor> \<le> - 126")
    case True
    then have "ulp32 x = 2 powr (- 149)" by (simp add: ulp32_def max_def)
    also have "\<dots> = 1 / 2 ^ 149" by (simp add: powr_minus_divide)
    finally have "ulp32 x = 1 / 2 ^ 149" .
    with assms show ?thesis by (simp add: field_simps)
  next
    case False
    define e where "e = \<lfloor>log 2 \<bar>x\<bar>\<rfloor>"
    have "2 powr (of_int e) \<le> x"
      using floor_log_eq_powr_iff [of x 2 e] pos by (simp add: e_def)
    moreover have "ulp32 x = 2 powr (of_int e - 23)"
      using False by (simp add: ulp32_def max_def e_def)
    ultimately have "2 powr (of_int e) / 2 powr (of_int e - 23) \<le> x / ulp32 x"
      by (simp add: divide_right_mono)
    moreover have "2 powr (of_int e) / 2 powr (of_int e - 23) = (2::real) powr 23"
      by (simp only: powr_diff [symmetric]) simp
    ultimately have "2 powr 23 \<le> x / ulp32 x" by simp
    then have "8388608 \<le> x / ulp32 x" by simp
    then show ?thesis by linarith
  qed
  have "1 \<le> round_half_even (x / ulp32 x)" using round_half_even_ge_1 [OF half] .
  then have "1 \<le> real_of_int (round_half_even (x / ulp32 x))" by simp
  then have "0 < real_of_int (round_half_even (x / ulp32 x)) * ulp32 x"
    using ulp32_pos [of x] by (simp add: zero_less_mult_iff)
  with pos show ?thesis by (simp add: round32_def)
qed

lemma exp_100_ge: "(2::real) ^ 128 \<le> exp 100"
proof -
  have "(2::real) \<le> 1 + 25 / 32 + (25 / 32)\<^sup>2 / 2" by (simp add: power2_eq_square)
  also have "\<dots> \<le> exp (25 / 32)" by (rule exp_lower_Taylor_quadratic) simp
  finally have "(2::real) ^ 128 \<le> exp (25 / 32) ^ 128" by (intro power_mono) simp_all
  also have "\<dots> = exp (of_nat 128 * (25 / 32))" by (simp only: exp_of_nat_mult)
  also have "\<dots> = exp 100" by simp
  finally show ?thesis .
qed

lemma exp_100_overflows: "float32_overflow \<le> exp (100::real)"
proof -
  have "float32_overflow \<le> 2 ^ 128" by (simp add: float32_overflow_def)
  with exp_100_ge show ?thesis by linarith
qed

lemma exp_minus_200_le: "exp (- 200 :: real) \<le> 1 / 2 ^ 150"
proof -
  have "(2::real) ^ 150 \<le> 2 ^ 128 * 2 ^ 128" by simp
  also have "\<dots> \<le> exp 100 * exp (100::real)"
    by (intro mult_mono exp_100_ge) simp_all
  also have "\<dots> = exp (200::real)" by (simp add: exp_add [symmetric])
  finally have "(2::real) ^ 150 \<le> exp 200" .
  then have "inverse (exp (200::real)) \<le> inverse (2 ^ 150)"
    by (intro le_imp_inverse_le) simp_all
  then show ?thesis by (simp add: exp_minus inverse_eq_divide)
qed

lemma round32_underflow:
  assumes "0 < x" and "x \<le> 1 / 2 ^ 150"
  shows "round32 x = 0"
proof -
  have "x < 2 powr (- 125)"
  proof -
    have "(1::real) / 2 ^ 150 < 1 / 2 ^ 125" by simp
    also have "\<dots> = 2 powr (- 125)" by (simp add: powr_minus_divide)
    finally show ?thesis using assms(2) by linarith
  qed
  then have "log 2 x < - 125"
    using assms(1) by (simp add: log_less_iff)
  then have "\<lfloor>log 2 x\<rfloor> \<le> - 126" by linarith
  then have "ulp32 x = 2 powr (- 149)"
    using assms(1) by (simp add: ulp32_def max_def)
  also have "\<dots> = 1 / 2 ^ 149" by (simp add: powr_minus_divide)
  finally have u: "ulp32 x = 1 / 2 ^ 149" .
  define y where "y = x / ulp32 x"
  have "0 < y" using assms(1) by (simp add: y_def u)
  moreover have half: "y \<le> 1 / 2" using assms(2) by (simp add: y_def u field_simps)
  ultimately have "0 \<le> y" and "y < 1" by linarith+
  then have "\<lfloor>y\<rfloor> = 0" by (simp add: floor_eq_iff)
  with half have "round_half_even y = 0"
    by (simp add: round_half_even_def Let_def)
  then have "round_half_even (x / ulp32 x) = 0" by (simp add: y_def)
  then show ?thesis by (simp add: round32_def)
qed

lemma to_f32_underflow:
  assumes "0 < x" and "x \<le> 1 / 2 ^ 150"
  shows "to_f32 x = Fin 0"
proof -
  have "(1::real) / 2 ^ 150 < 1" by simp
  with assms(2) have "x < 1" by linarith
  moreover have "1 \<le> float32_overflow" by (simp add: float32_overflow_def)
  ultimately have "\<not> float32_overflow \<le> x" and "\<not> x \<le> - float32_overflow"
    using assms(1) by linarith+
  then show ?thesis
    using round32_underflow [OF assms] by (simp add: to_f32_def)
qed

lemma round_half_even_le:
  assumes "y \<le> of_int n"
  shows "round_half_even y \<le> n"
proof (cases "\<lfloor>y\<rfloor> = n")
  case True
  with assms have "y = of_int n" by linarith
  then show ?thesis by simp
next
  case False
  from assms have "\<lfloor>y\<rfloor> \<le> n" by (simp add: floor_le_iff)
  with False have "\<lfloor>y\<rfloor> + 1 \<le> n" by linarith
  moreover have "round_half_even y \<le> \<lfloor>y\<rfloor> + 1"
    by (simp add: round_half_even_def Let_def)
  ultimately show ?thesis by linarith
qed

lemma round_half_even_below_half:
  assumes "y < of_int n - 1 / 2"
  shows "round_half_even y \<le> n - 1"
proof (cases "\<lfloor>y\<rfloor> = n - 1")
  case True
  with assms have "y - of_int \<lfloor>y\<rfloor> < 1 / 2" by simp
  with True show ?thesis by (simp add: round_half_even_def Let_def)
next
  case False
  from assms have "y < of_int n" by linarith
  then have "\<lfloor>y\<rfloor> < n" by (simp add: floor_less_iff)
  with False have "\<lfloor>y\<rfloor> + 1 \<le> n - 1" by linarith
  moreover have "round_half_even y \<le> \<lfloor>y\<rfloor> + 1"
    by (simp add: round_half_even_def Let_def)
  ultimately show ?thesis by linarith
qed

lemma round32_le_max:
  assumes "0 < x" and "x < float32_overflow"
  shows "round32 x \<le> float32_max"
proof -
  define k where "k = \<lfloor>log 2 x\<rfloor>"
  define e where "e = max k (- 126)"
  have fl: "2 powr (of_int k) \<le> x" "x < 2 powr (of_int k + 1)"
    using floor_log_eq_powr_iff [of x 2 k] assms(1) by (simp_all add: k_def)
  have u: "ulp32 x = 2 powr (of_int e - 23)"
    using assms(1) by (simp add: ulp32_def e_def k_def)
  have upos: "0 < ulp32 x" by (rule ulp32_pos)
  have "x < 2 ^ 128" using assms(2) by (simp add: float32_overflow_def)
  then have "x < 2 powr 128" by simp
  with fl(1) have lt: "2 powr (of_int k) < (2::real) powr 128" by linarith
  have "of_int k < (128::real)" by (rule powr_less_cancel [OF lt]) simp
  then have k: "k \<le> 127" by linarith
  then have e: "e \<le> 127" by (simp add: e_def)
  have r: "round32 x = of_int (round_half_even (x / ulp32 x)) * ulp32 x"
    using assms(1) by (simp add: round32_def)
  show ?thesis
  proof (cases "e = 127")
    case True
    then have u': "ulp32 x = 2 ^ 104" using u by simp
    have "x / ulp32 x < float32_overflow / 2 ^ 104"
      using assms(2) by (simp add: u' divide_strict_right_mono)
    also have "float32_overflow / 2 ^ 104 = of_int (2 ^ 24) - 1 / 2"
      by (simp add: float32_overflow_def)
    finally have "round_half_even (x / ulp32 x) \<le> 2 ^ 24 - 1"
      by (rule round_half_even_below_half)
    then have "real_of_int (round_half_even (x / ulp32 x)) \<le> real_of_int (2 ^ 24 - 1)"
      by (simp only: of_int_le_iff)
    then have "real_of_int (round_half_even (x / ulp32 x)) \<le> 2 ^ 24 - 1"
      by simp
    then have "round32 x \<le> (2 ^ 24 - 1) * 2 ^ 104"
      unfolding r u' by (simp add: mult_right_mono)
    also have "\<dots> = float32_max" by (simp add: float32_max_def)
    finally show ?thesis .
  next
    case False
    with e have e': "e \<le> 126" by simp
    have "of_int k + 1 \<le> (of_int e + 1 :: real)" by (simp add: e_def)
    then have "(2::real) powr (of_int k + 1) \<le> 2 powr (of_int e + 1)" by simp
    with fl(2) have "x < 2 powr (of_int e + 1)" by linarith
    then have "x / ulp32 x < 2 powr (of_int e + 1) / 2 powr (of_int e - 23)"
      unfolding u by (simp add: divide_strict_right_mono)
    also have "2 powr (of_int e + 1) / 2 powr (of_int e - 23) = (2::real) powr 24"
      by (simp only: powr_diff [symmetric]) simp
    finally have "x / ulp32 x \<le> of_int (2 ^ 24)" by simp
    then have "round_half_even (x / ulp32 x) \<le> 2 ^ 24"
      by (rule round_half_even_le)
    then have "real_of_int (round_half_even (x / ulp32 x)) \<le> real_of_int (2 ^ 24)"
      by (simp only: of_int_le_iff)
    then have "real_of_int (round_half_even (x / ulp32 x)) \<le> 2 powr 24"
      by simp
    then have "round32 x \<le> 2 powr 24 * 2 powr (of_int e - 23)"
      unfolding r u by (simp add: mult_right_mono)
    also have "\<dots> = 2 powr (of_int e + 1)"
      by (simp only: powr_add [symmetric]) (simp add: add.commute)
    also have "\<dots> \<le> 2 powr 127"
    proof (rule powr_mono)
      show "real_of_int e + 1 \<le> 127" using e' by simp
    qed simp
    also have "\<dots> \<le> float32_max" by (simp add: float32_max_def)
    finally show ?thesis .
  qed
qed

lemma to_f32_examples:
  "to_f32 1 = Fin 1" "to_f32 17 = Fin 17" "to_f32 19 = Fin 19" "to_f32 22 = Fin 22"
  "to_f32 39 = Fin 39" "to_f32 (39 / 2) = Fin (39 / 2)"
proof -
  show "to_f32 1 = Fin 1" by (rule to_f32_exact [of 0 _ "2 ^ 23"]) simp_all
  show "to_f32 17 = Fin 17" by (rule to_f32_exact [of 4 _ "17 * 2 ^ 19"]) simp_all
  show "to_f32 19 = Fin 19" by (rule to_f32_exact [of 4 _ "19 * 2 ^ 19"]) simp_all
  show "to_f32 22 = Fin 22" by (rule to_f32_exact [of 4 _ "22 * 2 ^ 19"]) simp_all
  show "to_f32 39 = Fin 39" by (rule to_f32_exact [of 5 _ "39 * 2 ^ 18"]) simp_all
  show "to_f32 (39 / 2) = Fin (39 / 2)" by (rule to_f32_exact [of 4 _ "39 * 2 ^ 18"]) simp_all
qed

lemma round32_examples: "round32 1 = 1" "round32 2 = 2"
proof -
  show "round32 1 = 1" by (rule round32_exact [of 0 _ "2 ^ 23"]) simp_all
  show "round32 2 = 2" by (rule round32_exact [of 1 _ "2 ^ 23"]) simp_all
qed

section \<open>Properties of calculatePerplexity\<close>

subsection \<open>Strategy selection\<close>

lemma py_and_falsy_left:
  "\<not> truthy a \<Longrightarrow> py_and a b = Inr v \<Longrightarrow> \<not> truthy v"
  by (cases a; cases b) auto

lemma select_strategy_never_stacking:
  "select_strategy adapter_dir1 adapter_dir2 \<noteq> Inr (Some ''stacking'')"
proof (cases "truthy adapter_dir1")
  case True
  then show ?thesis
    by (cases adapter_dir1) (auto simp: select_strategy_def and_then_def)
next
  case False
  then show ?thesis
    using py_and_falsy_left [of adapter_dir1 adapter_dir2]
    by (auto simp: select_strategy_def and_then_def split: sum.splits)
qed

lemma select_strategy_documented_types_not_original:
  assumes "adapter_dir1 = PNone \<or> adapter_dir1 = PStr s"
    and "adapter_dir2 = PNone \<or> adapter_dir2 = PStr t"
  shows "select_strategy adapter_dir1 adapter_dir2 \<noteq> Inr (Some ''original'')"
  using assms by (auto simp: select_strategy_def and_then_def split: if_splits)

text \<open>
  Claim C1. The strategy is meant to follow from which adapter paths are supplied:
  stacked with both, single-corpus with the first only, original with none. The code does
  not do this. With two directories the first branch is taken and the strategy is a
  single-corpus one (here \<^verbatim>\<open>Args.me\<close>); no input at all selects \<^verbatim>\<open>stacking\<close>; and
  with neither directory the test \<^verbatim>\<open>adapter_dir1 & adapter_dir2\<close> raises \<^verbatim>\<open>TypeError\<close>
  before \<^verbatim>\<open>original\<close> can be assigned.
\<close>

theorem select_strategy_two_adapters_not_stacked:
  "select_strategy (PStr ''/bert_argsme_adapter'') (PStr ''/bert_wiki_adapter'')
     = Inr (Some ''Args.me'')
   \<and> select_strategy PNone PNone = Inl (TypeError ''unsupported operand type(s) for &'')
   \<and> select_strategy adapter_dir1 adapter_dir2 \<noteq> Inr (Some ''stacking'')"
proof -
  have "select_strategy (PStr ''/bert_argsme_adapter'') (PStr ''/bert_wiki_adapter'')
          = Inr (Some ''Args.me'')"
    by (simp add: select_strategy_def and_then_def)
  moreover have "select_strategy PNone PNone
          = Inl (TypeError ''unsupported operand type(s) for &'')"
    by (simp add: select_strategy_def and_then_def)
  ultimately show ?thesis
    using select_strategy_never_stacking by simp
qed

text \<open>
  Claim C9. When \<^verbatim>\<open>adapter_dir1\<close> is a non-empty string that contains neither \<^verbatim>\<open>argsme\<close>
  nor \<^verbatim>\<open>wiki\<close>, no branch assigns \<^verbatim>\<open>strategy\<close>; for a recognised model name the call
  then ends at the first use of the variable with \<^verbatim>\<open>UnboundLocalError\<close>, having printed
  and changed nothing.
\<close>

theorem unnamed_corpus_adapter_unbound_strategy:
  assumes "str_in ''bert'' model_name \<or> str_in ''gpt2'' model_name"
    and "adapter_dir1 = PStr dir" and "dir \<noteq> []"
    and "\<not> str_in ''argsme'' dir" and "\<not> str_in ''wiki'' dir"
  shows "select_strategy adapter_dir1 adapter_dir2 = Inr None
       \<and> calculatePerplexity ex model_name test_df bias_type adapter_dir1 adapter_dir2 st
         = (Inl (UnboundLocalError ''strategy''), st)"
  using assms
  by (auto simp: calculatePerplexity_def model_family_def select_strategy_def and_then_def
      read_local_def)

theorem unnamed_corpus_adapter_unbound_strategy_witness:
  "select_strategy (PStr ''/bert_reddit_adapter'') PNone = Inr None
   \<and> calculatePerplexity example_extern ''bert-base-uncased'' example_frame ''Queerphobia''
       (PStr ''/bert_reddit_adapter'') PNone example_state
     = (Inl (UnboundLocalError ''strategy''), example_state)"
proof -
  have a: "str_in ''bert'' ''bert-base-uncased'' \<or> str_in ''gpt2'' ''bert-base-uncased''"
    by simp
  have b: "\<not> str_in ''argsme'' ''/bert_reddit_adapter''" by simp
  have c: "\<not> str_in ''wiki'' ''/bert_reddit_adapter''" by simp
  have d: "''/bert_reddit_adapter'' \<noteq> []" by simp
  show ?thesis
    using unnamed_corpus_adapter_unbound_strategy [OF a refl d b c] by simp
qed

subsection \<open>Unrecognised model names\<close>

text \<open>
  Claim C2. A model name that contains neither \<^verbatim>\<open>bert\<close> nor \<^verbatim>\<open>gpt2\<close> ends the call in
  the first \<^verbatim>\<open>if\<close> chain: with \<^verbatim>\<open>InputError\<close> where a helper file defines that name, with
  \<^verbatim>\<open>NameError\<close> where none does. The state is the one the call started in: nothing was
  printed, nothing was loaded or scored, and \<^verbatim>\<open>all_results\<close> is unchanged.
\<close>

theorem unrecognised_model_name_raises:
  assumes "\<not> str_in ''bert'' model_name" and "\<not> str_in ''gpt2'' model_name"
  shows "calculatePerplexity ex model_name test_df bias_type adapter_dir1 adapter_dir2 st
         = (Inl (if InputError_defined ex then InputError ''Model type is not recognized.''
                 else NameError ''InputError''), st)"
  using assms by (simp add: calculatePerplexity_def model_family_def raise_InputError_def)

theorem unrecognised_model_name_raises_witness:
  "calculatePerplexity example_extern ''microsoft/DialoGPT-medium'' example_frame
     ''Queerphobia'' PNone PNone example_state
   = (Inl (NameError ''InputError''), example_state)"
proof -
  have a: "\<not> str_in ''bert'' ''microsoft/DialoGPT-medium''" by simp
  have b: "\<not> str_in ''gpt2'' ''microsoft/DialoGPT-medium''" by simp
  show ?thesis
    using unrecognised_model_name_raises [OF a b, of example_extern example_frame
        "''Queerphobia''" PNone PNone example_state]
    by (simp add: example_extern_def)
qed

subsection \<open>Adapter paths\<close>

text \<open>
  Claim C10. For a causal model (\<^verbatim>\<open>clm\<close>) with a single-corpus strategy the adapter is
  loaded from the directory with the suffix \<^verbatim>\<open>/mlm\<close>, the same path as for a masked model,
  whereas the stacking branch of the causal model loads both adapters with the suffix
  \<^verbatim>\<open>/clm\<close>.
\<close>

theorem clm_single_adapter_path_has_mlm_suffix:
  assumes "strategy = ''Args.me'' \<or> strategy = ''Wikipedia''"
    and "pretrained_available ex model_name"
    and "adapter_available ex (dir @ d1 @ ''/mlm'')"
    and "adapter_available ex (dir @ d1 @ ''/clm'')"
    and "adapter_available ex (dir @ d2 @ ''/clm'')"
    and "ac_defined ex"
  shows "load_model ex dir ''clm'' strategy model_name (PStr d1) adapter_dir2
         = Inr \<lparr>checkpoint = model_name, head_class = ''AutoModelForCausalLM'',
                adapters = [(dir @ d1 @ ''/mlm'', ''model_adapter'', True)],
                active = SetActive ''model_adapter''\<rparr>
       \<and> load_model ex dir ''mlm'' strategy model_name (PStr d1) adapter_dir2
         = Inr \<lparr>checkpoint = model_name, head_class = ''AutoModelForMaskedLM'',
                adapters = [(dir @ d1 @ ''/mlm'', ''model_adapter'', True)],
                active = SetActive ''model_adapter''\<rparr>
       \<and> load_model ex dir ''clm'' ''stacking'' model_name (PStr d1) (PStr d2)
         = Inr \<lparr>checkpoint = model_name, head_class = ''AutoModelForCausalLM'',
                adapters = [(dir @ d1 @ ''/clm'', ''model_adapter1'', False),
                            (dir @ d2 @ ''/clm'', ''model_adapter2'', False)],
                active = Stack ''model_adapter1'' ''model_adapter2''\<rparr>"
  using assms
  by (auto simp: load_model_def from_pretrained_def load_adapter_def set_stack_def
      set_active_adapters_def and_then_def)

theorem clm_single_adapter_path_has_mlm_suffix_witness:
  "load_model (example_extern\<lparr>ac_defined := True\<rparr>) ''../../results/'' ''clm'' ''Args.me''
     ''gpt2'' (PStr ''/gpt2_argsme_adapter'') PNone
   = Inr \<lparr>checkpoint = ''gpt2'', head_class = ''AutoModelForCausalLM'',
          adapters = [(''../../results//gpt2_argsme_adapter/mlm'', ''model_adapter'', True)],
          active = SetActive ''model_adapter''\<rparr>
   \<and> load_model (example_extern\<lparr>ac_defined := True\<rparr>) ''../../results/'' ''clm''
       ''stacking'' ''gpt2'' (PStr ''/gpt2_argsme_adapter'') (PStr ''/gpt2_wiki_adapter'')
   = Inr \<lparr>checkpoint = ''gpt2'', head_class = ''AutoModelForCausalLM'',
          adapters = [(''../../results//gpt2_argsme_adapter/clm'', ''model_adapter1'', False),
                      (''../../results//gpt2_wiki_adapter/clm'', ''model_adapter2'', False)],
          active = Stack ''model_adapter1'' ''model_adapter2''\<rparr>"
proof -
  let ?ex = "example_extern\<lparr>ac_defined := True\<rparr>"
  have s: "''Args.me'' = ''Args.me'' \<or> ''Args.me'' = ''Wikipedia''" by simp
  have p: "pretrained_available ?ex ''gpt2''" by (simp add: example_extern_def)
  have a: "adapter_available ?ex path" for path by (simp add: example_extern_def)
  have c: "ac_defined ?ex" by simp
  show ?thesis
    using clm_single_adapter_path_has_mlm_suffix [of "''Args.me''" ?ex "''gpt2''"
        "''../../results/''" "''/gpt2_argsme_adapter''" "''/gpt2_wiki_adapter''" PNone,
        OF s p a a a c]
    by simp
qed

subsection \<open>Scoring\<close>

lemma score_each_Inr:
  "score_each f ss = Inr ps \<Longrightarrow> list_all2 (\<lambda>s p. f s = Inr p) ss ps"
  by (induction ss arbitrary: ps) (auto simp: and_then_def split: sum.splits)

lemma score_each_total:
  assumes "\<And>s. \<exists>p. f s = Inr p"
  shows "\<exists>ps. score_each f ss = Inr ps"
proof (induction ss)
  case Nil
  show ?case by simp
next
  case (Cons s ss)
  from assms obtain p where "f s = Inr p" by blast
  with Cons show ?case by (auto simp: and_then_def)
qed

lemma tmp_mean_Inr:
  "tmp_mean tmp = Inr m
   \<Longrightarrow> tmp \<noteq> [] \<and> m = fl_div_len (foldl fl_add (Fin 0) tmp) (length tmp)"
  by (auto simp: tmp_mean_def split: if_splits)

lemma score_opposing_Inr:
  "score_opposing f xss = Inr ms \<Longrightarrow>
   list_all2 (\<lambda>xs m. \<exists>tmp. score_each f xs = Inr tmp \<and> tmp \<noteq> []
                       \<and> m = fl_div_len (foldl fl_add (Fin 0) tmp) (length tmp)) xss ms"
proof (induction xss arbitrary: ms)
  case Nil
  then show ?case by simp
next
  case (Cons xs xss)
  then show ?case
    by (auto simp: and_then_def split: sum.splits dest: tmp_mean_Inr)
qed

lemma score_opposing_empty_row_fails:
  "[] \<in> set xss \<Longrightarrow> score_opposing f xss \<noteq> Inr ms"
proof
  assume a: "[] \<in> set xss" and b: "score_opposing f xss = Inr ms"
  from a obtain i where i: "i < length xss" "xss ! i = []"
    by (auto simp: in_set_conv_nth)
  from score_opposing_Inr [OF b] i
  obtain tmp where "score_each f [] = Inr tmp" "tmp \<noteq> []"
    by (auto simp: list_all2_conv_all_nth)
  then show False by simp
qed

lemma score_opposing_empty_row_raises:
  assumes "\<And>s. \<exists>p. f s = Inr p" and "[] \<in> set xss"
  shows "score_opposing f xss = Inl ZeroDivisionError"
  using assms(2)
proof (induction xss)
  case Nil
  then show ?case by simp
next
  case (Cons xs xss)
  show ?case
  proof (cases "xs = []")
    case True
    then show ?thesis by (simp add: and_then_def tmp_mean_def)
  next
    case False
    from score_each_total [of f xs] assms(1)
    obtain tmp where tmp: "score_each f xs = Inr tmp" by blast
    from score_each_Inr [OF tmp] False have "tmp \<noteq> []"
      by (auto simp: list_all2_Cons2 dest: list_all2_lengthD)
    moreover from Cons False have "score_opposing f xss = Inl ZeroDivisionError" by simp
    ultimately show ?thesis using tmp by (simp add: and_then_def tmp_mean_def)
  qed
qed

lemma perplexity_total:
  assumes "model_type = ''mlm'' \<or> model_type = ''clm''"
    and "\<And>m ids. \<exists>l. loss ex m ids = Inr l"
  shows "\<exists>p. perplexity ex model_type tokenizer model s = Inr p"
proof -
  from assms(1) obtain ids where "tensor_input ex model_type tokenizer s = Inr ids"
    by (auto simp: tensor_input_def)
  moreover from assms(2) obtain l where "loss ex model ids = Inr l" by blast
  ultimately show ?thesis by (simp add: perplexity_def and_then_def)
qed

lemma model_family_Inr:
  "model_family ex model_name = Inr (language_model, model_type)
   \<Longrightarrow> model_type = ''mlm'' \<or> model_type = ''clm''"
  by (auto simp: model_family_def split: if_splits)



subsection \<open>Successful calls\<close>

text \<open>A call that returns went through every stage, and this is all it did to the state.\<close>

lemma calculatePerplexity_success:
  assumes "calculatePerplexity ex model_name test_df bias_type adapter_dir1 adapter_dir2 st
           = (Inr r, st')"
  shows "\<exists>language_model model_type strategy model tokenizer bs os t.
           model_family ex model_name = Inr (language_model, model_type)
         \<and> select_strategy adapter_dir1 adapter_dir2 = Inr (Some strategy)
         \<and> load_model ex (all_adapters_dir st) model_type strategy model_name
              adapter_dir1 adapter_dir2 = Inr model
         \<and> tokenizer_from_pretrained ex model_name = Inr tokenizer
         \<and> tokenizer = model_name
         \<and> score_frame ex model_type tokenizer model test_df = Inr (bs, os)
         \<and> t_test ex bs os = Inr t
         \<and> r = [make_result language_model bias_type strategy t]
         \<and> st' = st\<lparr>all_results :=
                      all_results st @ [make_result language_model bias_type strategy t],
                    stdout := stdout st @
                      [Text (''Evaluate Results for '' @ language_model @ '' on '' @ strategy
                               @ '' Corpora concerning '' @ bias_type),
                       Text ''Load trained model.....'',
                       Text ''Model loaded successfully!'',
                       Text ''Calculate Perplexity Scores.....'',
                       Text ''Perplexity Scores calculated successfully!'',
                       Text (''Paired t-test of '' @ language_model),
                       Table (report_table t)]\<rparr>"
  using assms
  by (auto simp: calculatePerplexity_def read_local_def print_def print_table_def Let_def
      tokenizer_from_pretrained_def split: sum.splits option.splits prod.splits if_splits)

lemma example_run:
  "calculatePerplexity example_extern ''bert-base-uncased'' example_frame ''Queerphobia''
     (PStr ''/bert_argsme_adapter'') PNone example_state
   = (Inr [example_result], example_final_state)"
  by (simp add: calculatePerplexity_def model_family_def select_strategy_def read_local_def
      load_model_def from_pretrained_def load_adapter_def set_active_adapters_def
      tokenizer_from_pretrained_def print_def print_table_def score_frame_def
      example_frame_def example_extern_def example_state_def perplexity_def
      tensor_input_def and_then_def tmp_mean_def make_result_def report_table_def Let_def
      example_result_def example_final_state_def finite_part_def to_f32_examples
      round32_examples)



text \<open>
  Claim C7. A call that returns has appended exactly one record to \<^verbatim>\<open>all_results\<close>: the
  model family, the bias type and the strategy of the call, and the two means, the
  t-statistic and the p-value that \<^verbatim>\<open>t_test\<close> returned. The record is also the one row of
  the returned frame. The other global and the set of written files are as before.
\<close>

theorem successful_call_appends_one_result:
  assumes "calculatePerplexity ex model_name test_df bias_type adapter_dir1 adapter_dir2 st
           = (Inr r, st')"
  shows "\<exists>language_model model_type strategy bs os ttest pval num_samples mean_bs mean_os res.
           model_family ex model_name = Inr (language_model, model_type)
         \<and> select_strategy adapter_dir1 adapter_dir2 = Inr (Some strategy)
         \<and> t_test ex bs os = Inr (ttest, pval, num_samples, mean_bs, mean_os)
         \<and> res = \<lparr>Model = language_model, Bias_Type = bias_type, Strategy = strategy,
                   Mean_PPL_BS = mean_bs, Mean_PPL_OS = mean_os,
                   t_value = ttest, p_value = pval\<rparr>
         \<and> r = [res]
         \<and> all_results st' = all_results st @ [res]
         \<and> all_adapters_dir st' = all_adapters_dir st
         \<and> files_written st' = files_written st"
proof -
  from calculatePerplexity_success [OF assms]
  obtain language_model model_type strategy bs os t
    where f: "model_family ex model_name = Inr (language_model, model_type)"
      and s: "select_strategy adapter_dir1 adapter_dir2 = Inr (Some strategy)"
      and t: "t_test ex bs os = Inr t"
      and r: "r = [make_result language_model bias_type strategy t]"
      and a: "all_results st'
                = all_results st @ [make_result language_model bias_type strategy t]"
      and d: "all_adapters_dir st' = all_adapters_dir st"
      and w: "files_written st' = files_written st"
    by auto
  obtain ttest pval num_samples mean_bs mean_os
    where "t = (ttest, pval, num_samples, mean_bs, mean_os)" by (cases t) auto
  with f s t r a d w show ?thesis
    by (auto simp: make_result_def)
qed

theorem successful_call_appends_one_result_witness:
  "\<exists>language_model model_type strategy bs os ttest pval num_samples mean_bs mean_os res.
           model_family example_extern ''bert-base-uncased'' = Inr (language_model, model_type)
         \<and> select_strategy (PStr ''/bert_argsme_adapter'') PNone = Inr (Some strategy)
         \<and> t_test example_extern bs os = Inr (ttest, pval, num_samples, mean_bs, mean_os)
         \<and> res = \<lparr>Model = language_model, Bias_Type = ''Queerphobia'', Strategy = strategy,
                   Mean_PPL_BS = mean_bs, Mean_PPL_OS = mean_os,
                   t_value = ttest, p_value = pval\<rparr>
         \<and> [example_result] = [res]
         \<and> all_results example_final_state = all_results example_state @ [res]
         \<and> all_adapters_dir example_final_state = all_adapters_dir example_state
         \<and> files_written example_final_state = files_written example_state"
  using successful_call_appends_one_result [OF example_run] .

subsection \<open>Rows without opposing sentences\<close>

text \<open>
  Claim C8. When some row of the frame has an empty list of opposing sentences, the call
  never returns a result; and when the stages before the scoring succeed and the forward
  pass of the model does not fail, the exception that ends the call is the
  \<^verbatim>\<open>ZeroDivisionError\<close> of \<^verbatim>\<open>sum(tmp) / len(tmp)\<close>.
\<close>

theorem empty_opposing_list_raises_ZeroDivisionError:
  assumes "[] \<in> set (map Opposing_Sentence test_df)"
  shows "(\<forall>r st'. calculatePerplexity ex model_name test_df bias_type adapter_dir1
                    adapter_dir2 st \<noteq> (Inr r, st'))
       \<and> (model_family ex model_name = Inr (language_model, model_type)
          \<and> select_strategy adapter_dir1 adapter_dir2 = Inr (Some strategy)
          \<and> load_model ex (all_adapters_dir st) model_type strategy model_name
               adapter_dir1 adapter_dir2 = Inr model
          \<and> tokenizer_from_pretrained ex model_name = Inr tokenizer
          \<and> (\<forall>m ids. \<exists>l. loss ex m ids = Inr l)
          \<longrightarrow> fst (calculatePerplexity ex model_name test_df bias_type adapter_dir1
                      adapter_dir2 st) = Inl ZeroDivisionError)"
proof (intro conjI allI impI)
  fix r st'
  show "calculatePerplexity ex model_name test_df bias_type adapter_dir1 adapter_dir2 st
          \<noteq> (Inr r, st')"
  proof
    assume "calculatePerplexity ex model_name test_df bias_type adapter_dir1 adapter_dir2 st
              = (Inr r, st')"
    from calculatePerplexity_success [OF this]
    obtain model_type tokenizer model bs os
      where "score_frame ex model_type tokenizer model test_df = Inr (bs, os)" by blast
    then have "score_opposing (perplexity ex model_type tokenizer model)
                 (map Opposing_Sentence test_df) = Inr os"
      by (auto simp: score_frame_def and_then_def split: sum.splits)
    with score_opposing_empty_row_fails [OF assms] show False by blast
  qed
next
  assume p: "model_family ex model_name = Inr (language_model, model_type)
          \<and> select_strategy adapter_dir1 adapter_dir2 = Inr (Some strategy)
          \<and> load_model ex (all_adapters_dir st) model_type strategy model_name
               adapter_dir1 adapter_dir2 = Inr model
          \<and> tokenizer_from_pretrained ex model_name = Inr tokenizer
          \<and> (\<forall>m ids. \<exists>l. loss ex m ids = Inr l)"
  let ?f = "perplexity ex model_type tokenizer model"
  from p have mt: "model_type = ''mlm'' \<or> model_type = ''clm''"
    using model_family_Inr by blast
  have tot: "\<exists>q. ?f s = Inr q" for s
    using perplexity_total [OF mt] p by blast
  from score_each_total [of ?f "map Biased_Sentence test_df"] tot
  obtain bs where bs: "score_each ?f (map Biased_Sentence test_df) = Inr bs" by blast
  have "score_opposing ?f (map Opposing_Sentence test_df) = Inl ZeroDivisionError"
    using score_opposing_empty_row_raises [of ?f, OF tot assms] .
  with bs have "score_frame ex model_type tokenizer model test_df = Inl ZeroDivisionError"
    by (simp add: score_frame_def and_then_def)
  with p show "fst (calculatePerplexity ex model_name test_df bias_type adapter_dir1
                      adapter_dir2 st) = Inl ZeroDivisionError"
    by (simp add: calculatePerplexity_def read_local_def print_def Let_def)
qed

theorem empty_opposing_list_raises_ZeroDivisionError_witness:
  "[] \<in> set (map Opposing_Sentence gap_frame)
   \<and> fst (calculatePerplexity example_extern ''bert-base-uncased'' gap_frame ''Queerphobia''
       (PStr ''/bert_argsme_adapter'') PNone example_state) = Inl ZeroDivisionError"
proof -
  have h: "[] \<in> set (map Opposing_Sentence gap_frame)"
    by (simp add: gap_frame_def)
  show ?thesis
    using h empty_opposing_list_raises_ZeroDivisionError [OF h, of example_extern
        "''bert-base-uncased''" "''Queerphobia''" "PStr ''/bert_argsme_adapter''" PNone
        example_state "''BERT''" "''mlm''" "''Args.me''"
        "\<lparr>checkpoint = ''bert-base-uncased'', head_class = ''AutoModelForMaskedLM'',
          adapters = [(''../../results//bert_argsme_adapter/mlm'', ''model_adapter'', True)],
          active = SetActive ''model_adapter''\<rparr>" "''bert-base-uncased''"]
    by (simp add: model_family_def select_strategy_def load_model_def from_pretrained_def
        load_adapter_def set_active_adapters_def tokenizer_from_pretrained_def and_then_def
        example_extern_def example_state_def)
qed

subsection \<open>Range of the perplexity\<close>

lemma np_exp_in_range:
  assumes "1 / 2 ^ 150 < exp l" and "exp l < float32_overflow"
  shows "np_exp (Fin l) = Fin (round32 (exp l))"
  using assms by (simp add: to_f32_def float32_overflow_def)

text \<open>
  Claim C6, as it is stated, fails. A loss of 100 is finite, and its exponential lies
  above every finite 32-bit float, so the perplexity of the sentence is infinite. A loss
  of -200 is finite, and its exponential lies below half the least positive float, so
  the perplexity is zero.
\<close>

theorem perplexity_infinite_or_zero_outside_range:
  "tensor_input overflow_extern ''mlm'' ''bert-base-uncased'' ''he is gay''
     = Inr [5, 2, 2, 3, 5]
   \<and> loss overflow_extern example_model [5, 2, 2, 3, 5] = Inr (Fin 100)
   \<and> perplexity overflow_extern ''mlm'' ''bert-base-uncased'' example_model ''he is gay''
     = Inr PosInf
   \<and> loss underflow_extern example_model [5, 2, 2, 3, 5] = Inr (Fin (- 200))
   \<and> perplexity underflow_extern ''mlm'' ''bert-base-uncased'' example_model ''he is gay''
     = Inr (Fin 0)"
proof -
  have "to_f32 (exp 100) = PosInf"
    using exp_100_overflows by (simp add: to_f32_def)
  moreover have "to_f32 (exp (- 200)) = Fin 0"
    by (rule to_f32_underflow [OF exp_gt_zero exp_minus_200_le])
  ultimately show ?thesis
    by (simp add: perplexity_def tensor_input_def overflow_extern_def underflow_extern_def
        example_extern_def and_then_def)
qed

text \<open>
  Claim C6, amended. For a sentence that the tokenizer and the model accept, when the
  loss is a finite value whose exponential lies below the overflow threshold of 32-bit
  floats (a loss below about 88.72) and above half the least positive float (a loss above
  about -103.97), the perplexity is the exponential of the loss rounded to a 32-bit
  float; it is finite, strictly positive and at most the largest finite float.
\<close>

theorem perplexity_positive_finite_below_overflow:
  assumes "tensor_input ex model_type tokenizer sent = Inr ids"
    and "loss ex model ids = Inr (Fin l)"
    and "1 / 2 ^ 150 < exp l" and "exp l < float32_overflow"
  shows "perplexity ex model_type tokenizer model sent = Inr (Fin (round32 (exp l)))
       \<and> 0 < round32 (exp l) \<and> round32 (exp l) \<le> float32_max"
proof -
  have "perplexity ex model_type tokenizer model sent = Inr (np_exp (Fin l))"
    using assms(1,2) by (simp add: perplexity_def and_then_def)
  then have "perplexity ex model_type tokenizer model sent = Inr (Fin (round32 (exp l)))"
    using np_exp_in_range [OF assms(3,4)] by simp
  moreover have "0 < round32 (exp l)"
    using assms(3) by (rule round32_pos)
  moreover have "round32 (exp l) \<le> float32_max"
    using assms(4) by (intro round32_le_max) simp_all
  ultimately show ?thesis by simp
qed

theorem perplexity_positive_finite_below_overflow_witness:
  "perplexity example_extern ''mlm'' ''bert-base-uncased'' example_model ''he is gay''
     = Inr (Fin 17)
   \<and> (0::real) < 17 \<and> 17 \<le> float32_max"
proof -
  have i: "tensor_input example_extern ''mlm'' ''bert-base-uncased'' ''he is gay''
             = Inr [5, 2, 2, 3, 5]"
    by (simp add: tensor_input_def example_extern_def)
  have l: "loss example_extern example_model [5, 2, 2, 3, 5] = Inr (Fin (ln 17))"
    by (simp add: example_extern_def)
  have lo: "1 / 2 ^ 150 < exp (ln (17::real))" by simp
  have hi: "exp (ln (17::real)) < float32_overflow" by (simp add: float32_overflow_def)
  have r: "round32 17 = 17"
    by (rule round32_exact [of 4 _ "17 * 2 ^ 19"]) simp_all
  show ?thesis
    using perplexity_positive_finite_below_overflow [OF i l lo hi] r
    by simp
qed

section \<open>Properties of prepare_df\<close>

subsection \<open>Deduplication\<close>

lemma lower_char_idem: "lower_char (lower_char c) = lower_char c"
  by (simp add: lower_char_def Let_def)

lemma lower_idem: "lower (lower s) = lower s"
  by (simp add: lower_def lower_char_idem)

lemma drop_seen_fresh:
  "r \<in> set (drop_seen seen rs) \<Longrightarrow> Biased_Sentence r \<notin> set seen"
proof (induction rs arbitrary: seen)
  case Nil
  then show ?case by simp
next
  case (Cons a rs)
  show ?case
  proof (cases "Biased_Sentence a \<in> set seen")
    case True
    with Cons show ?thesis by simp
  next
    case False
    with Cons.prems have "r = a \<or> r \<in> set (drop_seen (Biased_Sentence a # seen) rs)"
      by simp
    then show ?thesis
      using False Cons.IH [of "Biased_Sentence a # seen"] by auto
  qed
qed

lemma drop_seen_distinct: "distinct (map Biased_Sentence (drop_seen seen rs))"
proof (induction rs arbitrary: seen)
  case Nil
  show ?case by simp
next
  case (Cons r rs)
  have "Biased_Sentence r \<notin> set (map Biased_Sentence (drop_seen (Biased_Sentence r # seen) rs))"
  proof
    assume "Biased_Sentence r \<in> set (map Biased_Sentence (drop_seen (Biased_Sentence r # seen) rs))"
    then obtain q where "q \<in> set (drop_seen (Biased_Sentence r # seen) rs)"
      and "Biased_Sentence q = Biased_Sentence r" by auto
    with drop_seen_fresh [of q "Biased_Sentence r # seen" rs] show False by simp
  qed
  with Cons [of seen] Cons [of "Biased_Sentence r # seen"] show ?case by simp
qed

lemma drop_seen_keeps_distinct:
  "distinct (map Biased_Sentence rs) \<Longrightarrow> set (map Biased_Sentence rs) \<inter> set seen = {}
   \<Longrightarrow> drop_seen seen rs = rs"
  by (induction rs arbitrary: seen) auto

lemma drop_seen_subset: "set (drop_seen seen rs) \<subseteq> set rs"
  by (induction rs arbitrary: seen) auto

lemma drop_duplicates_distinct: "distinct (map Biased_Sentence (drop_duplicates df))"
  by (simp add: drop_duplicates_def drop_seen_distinct)

lemma drop_duplicates_idem: "drop_duplicates (drop_duplicates df) = drop_duplicates df"
  using drop_seen_keeps_distinct [of "drop_seen [] df" "[]"] drop_seen_distinct [of "[]" df]
  by (simp add: drop_duplicates_def)

lemma drop_duplicates_nonempty: "df \<noteq> [] \<Longrightarrow> drop_duplicates df \<noteq> []"
  by (cases df) (simp_all add: drop_duplicates_def)

lemma prepare_df_success:
  assumes "prepare_df ex annotation_frame_dir target_term_dir st = (Inr df, st')"
  shows "\<exists>sheet target_term_pairs.
           read_excel ex annotation_frame_dir = Inr sheet
         \<and> filter (\<lambda>r. ann_Biased_Sentence r = 1) sheet \<noteq> []
         \<and> read_csv ex target_term_dir = Inr target_term_pairs
         \<and> df = map (add_columns (all_target_terms target_term_pairs) target_term_pairs)
                  (drop_duplicates (map lowercase (map keep_columns
                     (filter (\<lambda>r. ann_Biased_Sentence r = 1) sheet))))"
  using assms
  by (auto simp: prepare_df_def Let_def split: sum.splits if_splits)

lemma keep_columns_as_annotation:
  "lowercase (keep_columns (as_annotation (add_columns tt pairs row))) = lowercase row"
  by (simp add: keep_columns_def as_annotation_def add_columns_def Let_def lowercase_def)

lemma Biased_Sentence_add_columns [simp]:
  "Biased_Sentence (add_columns tt pairs row) = Biased_Sentence row"
  by (simp add: add_columns_def Let_def)

lemma example_prepare:
  "prepare_df example_extern ''abba_queerphobia_annotations.xlsx''
     ''target_term_pairs_queerphobia_bias.csv'' example_state
   = (Inr example_frame, example_prepared_state)"
proof -
  have l: "lower ''He is GAY'' = ''he is gay''" "lower ''he is gay'' = ''he is gay''"
    "lower ''a queer man'' = ''a queer man''"
    by code_simp+
  have n: "str_nat (Suc (Suc (Suc 0))) = ''3''" "str_nat (Suc (Suc 0)) = ''2''"
    by code_simp+
  show ?thesis
    by (simp add: prepare_df_def example_extern_def example_sheet_def example_pairs_def
        example_state_def example_frame_def example_prepared_state_def
        keep_columns_def lowercase_def drop_duplicates_def print_def
        all_target_terms_def add_columns_def findTargetTerms_def findOppositeTargetTerm_def
        opposites_def createCombination_def replaceTermsInSentence_def substitute_def
        Let_def l n)
qed

text \<open>
  Claim C5. After one pass of the preparer no two rows have the same lowercased
  sentence. The frame does not depend on the state the preparer is called in, so a second
  run on the same input gives the same rows in the same order; and a run on its own
  output, written back as a sheet in which every row is labelled biased, gives that
  output again: lowercasing and deduplication change nothing the second time.
\<close>

theorem deduplication_idempotent:
  assumes "prepare_df ex annotation_frame_dir target_term_dir st = (Inr df, st')"
  shows "distinct (map Biased_Sentence df)
       \<and> fst (prepare_df ex annotation_frame_dir target_term_dir st2) = Inr df
       \<and> fst (prepare_df (ex\<lparr>read_excel := (\<lambda>path. Inr (map as_annotation df))\<rparr>)
                annotation_frame_dir target_term_dir st2) = Inr df"
proof -
  from prepare_df_success [OF assms]
  obtain sheet pairs where e: "read_excel ex annotation_frame_dir = Inr sheet"
    and ne: "filter (\<lambda>r. ann_Biased_Sentence r = 1) sheet \<noteq> []"
    and c: "read_csv ex target_term_dir = Inr pairs"
    and df: "df = map (add_columns (all_target_terms pairs) pairs)
                  (drop_duplicates (map lowercase (map keep_columns
                     (filter (\<lambda>r. ann_Biased_Sentence r = 1) sheet))))"
    by blast
  let ?core = "drop_duplicates (map lowercase (map keep_columns
                     (filter (\<lambda>r. ann_Biased_Sentence r = 1) sheet)))"
  have d: "distinct (map Biased_Sentence df)"
    using drop_duplicates_distinct [of "map lowercase (map keep_columns
                     (filter (\<lambda>r. ann_Biased_Sentence r = 1) sheet))"]
    by (simp add: df comp_def)
  have again: "fst (prepare_df ex annotation_frame_dir target_term_dir st2) = Inr df"
    using e ne c df by (simp add: prepare_df_def Let_def)
  have "?core \<noteq> []"
    using ne by (intro drop_duplicates_nonempty) simp
  then have dne: "df \<noteq> []" by (simp add: df)
  have low: "lowercase row = row" if "row \<in> set ?core" for row
  proof -
    from that have "row \<in> set (map lowercase (map keep_columns
                     (filter (\<lambda>r. ann_Biased_Sentence r = 1) sheet)))"
      using drop_seen_subset [of "[]" "map lowercase (map keep_columns
                     (filter (\<lambda>r. ann_Biased_Sentence r = 1) sheet))"]
      unfolding drop_duplicates_def by blast
    then obtain q where "row = lowercase q" by auto
    then show ?thesis by (simp add: lowercase_def lower_idem)
  qed
  have f: "filter (\<lambda>r. ann_Biased_Sentence r = 1) (map as_annotation df) = map as_annotation df"
    by (simp add: as_annotation_def)
  have "map lowercase (map keep_columns (map as_annotation df)) = map lowercase ?core"
    by (simp add: df keep_columns_as_annotation)
  also have "\<dots> = ?core" using low by (simp add: map_idI)
  finally have m: "map lowercase (map keep_columns (map as_annotation df)) = ?core" .
  have step: "drop_duplicates (map lowercase (map keep_columns
                (filter (\<lambda>r. ann_Biased_Sentence r = 1) (map as_annotation df)))) = ?core"
    by (simp only: f m drop_duplicates_idem)
  have "fst (prepare_df (ex\<lparr>read_excel := (\<lambda>path. Inr (map as_annotation df))\<rparr>)
                annotation_frame_dir target_term_dir st2)
        = Inr (map (add_columns (all_target_terms pairs) pairs)
                (drop_duplicates (map lowercase (map keep_columns
                   (filter (\<lambda>r. ann_Biased_Sentence r = 1) (map as_annotation df))))))"
    using c dne by (simp add: prepare_df_def Let_def f)
  then have "fst (prepare_df (ex\<lparr>read_excel := (\<lambda>path. Inr (map as_annotation df))\<rparr>)
                annotation_frame_dir target_term_dir st2)
        = Inr (map (add_columns (all_target_terms pairs) pairs) ?core)"
    by (simp only: step)
  then have "fst (prepare_df (ex\<lparr>read_excel := (\<lambda>path. Inr (map as_annotation df))\<rparr>)
                annotation_frame_dir target_term_dir st2) = Inr df"
    by (simp only: df [symmetric])
  with d again show ?thesis by simp
qed


theorem deduplication_idempotent_witness:
  "distinct (map Biased_Sentence example_frame)
   \<and> fst (prepare_df example_extern ''abba_queerphobia_annotations.xlsx''
            ''target_term_pairs_queerphobia_bias.csv'' example_final_state)
     = Inr example_frame
   \<and> fst (prepare_df
            (example_extern\<lparr>read_excel := (\<lambda>path. Inr (map as_annotation example_frame))\<rparr>)
            ''abba_queerphobia_annotations.xlsx''
            ''target_term_pairs_queerphobia_bias.csv'' example_final_state)
     = Inr example_frame"
  using deduplication_idempotent [OF example_prepare, of example_final_state] .

subsection \<open>Counterfactual augmentation\<close>

lemma split_words_nonempty: "split_words s \<noteq> []"
  by (induction s) (auto split: list.splits)

lemma join_split_words: "join_words (split_words s) = s"
proof (induction s)
  case Nil
  show ?case by simp
next
  case (Cons c cs)
  obtain w ws where ws: "split_words cs = w # ws"
    using split_words_nonempty [of cs] by (cases "split_words cs") auto
  with Cons show ?case
    by (cases ws) auto
qed

lemma combination_entries:
  assumes "combination \<in> set (createCombination tts (findOppositeTargetTerm tts pairs))"
  shows "map fst combination = tts
       \<and> (\<forall>(t, opp) \<in> set combination. opp \<in> set (opposites pairs t))"
  using assms
proof (induction tts arbitrary: combination)
  case Nil
  then show ?case by (simp add: createCombination_def findOppositeTargetTerm_def)
next
  case (Cons t tts)
  from Cons.prems obtain opp rest where c: "combination = (t, opp) # rest"
    and o: "opp \<in> set (opposites pairs t)"
    and r: "rest \<in> set (createCombination tts (findOppositeTargetTerm tts pairs))"
    by (auto simp: createCombination_def findOppositeTargetTerm_def)
  with Cons.IH [OF r] show ?case by auto
qed

lemma opposites_paired:
  "opp \<in> set (opposites pairs t) \<Longrightarrow> (t, opp) \<in> set pairs \<or> (opp, t) \<in> set pairs"
  by (auto simp: opposites_def)

lemma set_all_target_terms:
  "set (all_target_terms pairs) = fst ` set pairs \<union> snd ` set pairs"
  by (simp add: all_target_terms_def)

lemma substitute_word:
  assumes "combination \<in> set (createCombination tts (findOppositeTargetTerm tts pairs))"
  shows "if w \<in> set tts
         then (w, substitute combination w) \<in> set pairs \<or> (substitute combination w, w) \<in> set pairs
         else substitute combination w = w"
proof (cases "w \<in> set tts")
  case True
  from combination_entries [OF assms] have f: "map fst combination = tts"
    and o: "\<forall>(t, opp) \<in> set combination. opp \<in> set (opposites pairs t)" by auto
  from True f have "w \<in> fst ` set combination" by (metis set_map)
  then obtain opp where m: "map_of combination w = Some opp"
    by (metis domD dom_map_of_conv_image_fst)
  then have "(w, opp) \<in> set combination" by (rule map_of_SomeD)
  with o have "opp \<in> set (opposites pairs w)" by auto
  with m True show ?thesis
    using opposites_paired [of opp pairs w] by (simp add: substitute_def)
next
  case False
  from combination_entries [OF assms] have f: "map fst combination = tts" by auto
  with False have "w \<notin> fst ` set combination" by (metis set_map)
  then have "map_of combination w = None" by (simp add: map_of_eq_None_iff)
  with False show ?thesis by (simp add: substitute_def)
qed

text \<open>
  Claim C3. Every opposing sentence of a prepared row is the biased sentence of the row
  with its words replaced one by one: a word that is a target term of the table is
  replaced by a term paired with it in the table, and every other word stays as it is.
  The words of a sentence are its parts between single spaces; joining them gives the
  sentence back.
\<close>

theorem opposing_sentence_substitutes_words:
  assumes "prepare_df ex annotation_frame_dir target_term_dir st = (Inr df, st')"
    and "read_csv ex target_term_dir = Inr target_term_pairs"
    and "row \<in> set df" and "opposing \<in> set (Opposing_Sentence row)"
  shows "\<exists>ws. opposing = join_words ws
           \<and> join_words (split_words (Biased_Sentence row)) = Biased_Sentence row
           \<and> list_all2
                (\<lambda>w w'. if w \<in> fst ` set target_term_pairs \<union> snd ` set target_term_pairs
                        then (w, w') \<in> set target_term_pairs \<or> (w', w) \<in> set target_term_pairs
                        else w' = w)
                (split_words (Biased_Sentence row)) ws"
proof -
  from prepare_df_success [OF assms(1)] assms(2)
  have "df = map (add_columns (all_target_terms target_term_pairs) target_term_pairs)
                  (drop_duplicates (map lowercase (map keep_columns
                     (filter (\<lambda>r. ann_Biased_Sentence r = 1) (projr (read_excel ex annotation_frame_dir))))))"
    by auto
  with assms(3) obtain core where
    row: "row = add_columns (all_target_terms target_term_pairs) target_term_pairs core"
    by auto
  let ?s = "Biased_Sentence core"
  let ?tts = "findTargetTerms ?s (all_target_terms target_term_pairs)"
  from row have s: "Biased_Sentence row = ?s" by simp
  from row assms(4) obtain combination
    where c: "combination \<in> set (createCombination ?tts
                 (findOppositeTargetTerm ?tts target_term_pairs))"
      and o: "opposing = join_words (map (substitute combination) (split_words ?s))"
    by (auto simp: add_columns_def Let_def replaceTermsInSentence_def)
  have "list_all2
          (\<lambda>w w'. if w \<in> fst ` set target_term_pairs \<union> snd ` set target_term_pairs
                  then (w, w') \<in> set target_term_pairs \<or> (w', w) \<in> set target_term_pairs
                  else w' = w)
          (split_words ?s) (map (substitute combination) (split_words ?s))"
  proof (rule list_all2_all_nthI)
    show "length (split_words ?s) = length (map (substitute combination) (split_words ?s))"
      by simp
  next
    fix n assume n: "n < length (split_words ?s)"
    let ?w = "split_words ?s ! n"
    from n have "?w \<in> set (split_words ?s)" by simp
    then have "?w \<in> set ?tts \<longleftrightarrow> ?w \<in> fst ` set target_term_pairs \<union> snd ` set target_term_pairs"
      by (simp add: findTargetTerms_def set_all_target_terms)
    with substitute_word [OF c, of ?w] n
    show "if ?w \<in> fst ` set target_term_pairs \<union> snd ` set target_term_pairs
          then (?w, map (substitute combination) (split_words ?s) ! n) \<in> set target_term_pairs
             \<or> (map (substitute combination) (split_words ?s) ! n, ?w) \<in> set target_term_pairs
          else map (substitute combination) (split_words ?s) ! n = ?w"
      by simp
  qed
  with o join_split_words [of ?s] show ?thesis
    unfolding s by blast
qed


theorem opposing_sentence_substitutes_words_witness:
  "\<exists>ws. ''a cis man'' = join_words ws
      \<and> join_words (split_words (Biased_Sentence (example_frame ! 1)))
          = Biased_Sentence (example_frame ! 1)
      \<and> list_all2
           (\<lambda>w w'. if w \<in> fst ` set example_pairs \<union> snd ` set example_pairs
                   then (w, w') \<in> set example_pairs \<or> (w', w) \<in> set example_pairs
                   else w' = w)
           (split_words (Biased_Sentence (example_frame ! 1))) ws"
proof -
  have c: "read_csv example_extern ''target_term_pairs_queerphobia_bias.csv''
             = Inr example_pairs"
    by (simp add: example_extern_def)
  have r: "example_frame ! 1 \<in> set example_frame"
    by (simp add: example_frame_def)
  have o: "''a cis man'' \<in> set (Opposing_Sentence (example_frame ! 1))"
    by (simp add: example_frame_def)
  show ?thesis
    using opposing_sentence_substitutes_words [OF example_prepare c r o] .
qed

end
